theory Spec2Isabelle
  imports Complex_Main
begin

section \<open>The HS71 problem of \<open>003-hs71.cc\<close>\<close>

text \<open>
  The program defines three twice-differentiable functions on four variables (the objective
  \<open>F\<close> and the constraint functions \<open>G0\<close> and \<open>G1\<close>), assembles the problem
  (argument bounds, starting point, two constraints), hands it to a solver and switches on the
  tag of the outcome.

  The C++ type \<open>double\<close> is modelled by \<^typ>\<open>real\<close>: the properties below are statements
  of exact polynomial arithmetic. Vectors are lists; a matrix is the list of its rows, in the
  order in which the comma initialiser \<open>h << ...\<close> fills it (row by row).
\<close>

type_synonym vector_t = "real list"
type_synonym matrix_t = "real list list"
type_synonym size_type = nat

text \<open>Everything that stops a call instead of returning from it.\<close>

datatype error =
    AssertionFailure    \<comment> \<open>a coefficient access outside the vector, or \<open>assert (0)\<close>\<close>
  | DimensionMismatch
  | IndexOutOfRange
  | bad_get             \<comment> \<open>\<open>boost::get<T>\<close> on a variant that does not hold a \<open>T\<close>\<close>

subsection \<open>The three functions\<close>

text \<open>
  Each struct passes \<open>(4, 1, name)\<close> to the constructor of its base class: input size 4,
  output size 1. The display name takes no part in any computation and is left out.
\<close>

datatype function_t = F | G0 | G1

fun inputSize :: "function_t \<Rightarrow> size_type" where
  "inputSize F = 4"
| "inputSize G0 = 4"
| "inputSize G1 = 4"

fun outputSize :: "function_t \<Rightarrow> size_type" where
  "outputSize F = 1"
| "outputSize G0 = 1"
| "outputSize G1 = 1"

text \<open>
  \<open>impl_compute\<close> writes coefficient 0 of the result vector it is handed, which the caller
  has sized; the other two operations overwrite every coefficient of their output, so only the
  written contents are modelled. \<open>x[i]\<close> outside the vector fails the library's assertion.
  The \<open>size_type\<close> argument of \<open>impl_gradient\<close> and \<open>impl_hessian\<close> (the output index)
  is unnamed in the source and ignored.
\<close>

definition F_impl_compute :: "vector_t \<Rightarrow> vector_t \<Rightarrow> error + vector_t" where
  "F_impl_compute result x =
     (if 0 < length result \<and> 3 < length x
      then Inr (result[0 := x ! 0 * x ! 3 * (x ! 0 + x ! 1 + x ! 2) + x ! 2])
      else Inl AssertionFailure)"

definition F_impl_gradient :: "vector_t \<Rightarrow> size_type \<Rightarrow> error + vector_t" where
  "F_impl_gradient x i =
     (if 3 < length x
      then Inr [x ! 0 * x ! 3 + x ! 3 * (x ! 0 + x ! 1 + x ! 2),
                x ! 0 * x ! 3,
                x ! 0 * x ! 3 + 1,
                x ! 0 * (x ! 0 + x ! 1 + x ! 2)]
      else Inl AssertionFailure)"

definition F_impl_hessian :: "vector_t \<Rightarrow> size_type \<Rightarrow> error + matrix_t" where
  "F_impl_hessian x i =
     (if 3 < length x
      then Inr [[2 * x ! 3,               x ! 3, x ! 3, 2 * x ! 0 + x ! 1 + x ! 2],
                [x ! 3,                   0,     0,     x ! 0],
                [x ! 3,                   0,     0,     x ! 1],
                [2 * x ! 0 + x ! 1 + x ! 2, x ! 0, x ! 0, 0]]
      else Inl AssertionFailure)"

definition G0_impl_compute :: "vector_t \<Rightarrow> vector_t \<Rightarrow> error + vector_t" where
  "G0_impl_compute result x =
     (if 0 < length result \<and> 3 < length x
      then Inr (result[0 := x ! 0 * x ! 1 * x ! 2 * x ! 3])
      else Inl AssertionFailure)"

definition G0_impl_gradient :: "vector_t \<Rightarrow> size_type \<Rightarrow> error + vector_t" where
  "G0_impl_gradient x i =
     (if 3 < length x
      then Inr [x ! 1 * x ! 2 * x ! 3,
                x ! 0 * x ! 2 * x ! 3,
                x ! 0 * x ! 1 * x ! 3,
                x ! 0 * x ! 1 * x ! 2]
      else Inl AssertionFailure)"

definition G0_impl_hessian :: "vector_t \<Rightarrow> size_type \<Rightarrow> error + matrix_t" where
  "G0_impl_hessian x i =
     (if 3 < length x
      then Inr [[0,             x ! 2 * x ! 3, x ! 1 * x ! 3, x ! 1 * x ! 2],
                [x ! 2 * x ! 3, 0,             x ! 0 * x ! 3, x ! 0 * x ! 2],
                [x ! 1 * x ! 3, x ! 0 * x ! 3, 0,             x ! 0 * x ! 1],
                [x ! 1 * x ! 2, x ! 0 * x ! 2, x ! 0 * x ! 1, 0]]
      else Inl AssertionFailure)"

definition G1_impl_compute :: "vector_t \<Rightarrow> vector_t \<Rightarrow> error + vector_t" where
  "G1_impl_compute result x =
     (if 0 < length result \<and> 3 < length x
      then Inr (result[0 := x ! 0 * x ! 0 + x ! 1 * x ! 1 + x ! 2 * x ! 2 + x ! 3 * x ! 3])
      else Inl AssertionFailure)"

definition G1_impl_gradient :: "vector_t \<Rightarrow> size_type \<Rightarrow> error + vector_t" where
  "G1_impl_gradient x i = Inr (map (\<lambda>v. 2 * v) x)"

definition G1_impl_hessian :: "vector_t \<Rightarrow> size_type \<Rightarrow> error + matrix_t" where
  "G1_impl_hessian x i =
     Inr [[2, 0, 0, 0],
          [0, 2, 0, 0],
          [0, 0, 2, 0],
          [0, 0, 0, 2]]"

text \<open>Virtual dispatch on the dynamic type of the function object.\<close>

fun impl_compute :: "function_t \<Rightarrow> vector_t \<Rightarrow> vector_t \<Rightarrow> error + vector_t" where
  "impl_compute F = F_impl_compute"
| "impl_compute G0 = G0_impl_compute"
| "impl_compute G1 = G1_impl_compute"

fun impl_gradient :: "function_t \<Rightarrow> vector_t \<Rightarrow> size_type \<Rightarrow> error + vector_t" where
  "impl_gradient F = F_impl_gradient"
| "impl_gradient G0 = G0_impl_gradient"
| "impl_gradient G1 = G1_impl_gradient"

fun impl_hessian :: "function_t \<Rightarrow> vector_t \<Rightarrow> size_type \<Rightarrow> error + matrix_t" where
  "impl_hessian F = F_impl_hessian"
| "impl_hessian G0 = G0_impl_hessian"
| "impl_hessian G1 = G1_impl_hessian"


subsection \<open>Intervals\<close>

text \<open>
  The interval type and its factory helpers belong to the function class of the library,
  which is not among the sources.
\<close>

text \<open>
  Modelled from the spec: the interval type of the library, missing from the sources. An
  interval is \<open>{lower: float or -infinity, upper: float or +infinity}\<close>.
\<close>

datatype endpoint = NegInfinity | Finite real | PosInfinity

record interval_t =
  lower :: endpoint
  upper :: endpoint

text \<open>
  Modelled from the spec: the library's helper \<open>Function::makeInterval\<close>, missing from the
  sources, which produces the two-sided interval.
\<close>

definition makeInterval :: "real \<Rightarrow> real \<Rightarrow> interval_t" where
  "makeInterval l u = \<lparr>lower = Finite l, upper = Finite u\<rparr>"

text \<open>
  Modelled from the spec: the library's helper \<open>Function::makeLowerInterval\<close>, missing
  from the sources, which produces the interval unbounded above, \<open>[l, +infinity)\<close>.
\<close>

definition makeLowerInterval :: "real \<Rightarrow> interval_t" where
  "makeLowerInterval l = \<lparr>lower = Finite l, upper = PosInfinity\<rparr>"

text \<open>The order of the endpoints, and what it is for a number to lie in an interval.\<close>

fun le_endpoint :: "endpoint \<Rightarrow> endpoint \<Rightarrow> bool" where
  "le_endpoint NegInfinity b = True"
| "le_endpoint a PosInfinity = True"
| "le_endpoint (Finite a) (Finite b) = (a \<le> b)"
| "le_endpoint a b = False"

definition in_interval :: "real \<Rightarrow> interval_t \<Rightarrow> bool" where
  "in_interval v iv = (le_endpoint (lower iv) (Finite v) \<and> le_endpoint (Finite v) (upper iv))"

subsection \<open>The problem container\<close>

text \<open>
  The problem class and its operations are the library's and are not among the sources;
  \<open>main\<close> is their caller.
\<close>

text \<open>
  Modelled from the spec: the constraint of the library, missing from the sources. A
  constraint is \<open>{function, bounds, scales}\<close>, one bound and one scale per output
  component of the function.
\<close>

record constraint_t =
  cfunction :: function_t
  cbounds :: "interval_t list"
  cscales :: "real list"

text \<open>
  Modelled from the spec: the problem of the library, missing from the sources. A problem is
  \<open>{objective, constraints, argumentBounds, startingPoint}\<close>. The source reads the
  objective through \<open>pb.function ()\<close>. No starting point is stored before one is set.
\<close>

record problem_t =
  pb_function :: function_t
  constraints :: "constraint_t list"
  argumentBounds :: "interval_t list"
  startingPoint :: "vector_t option"

text \<open>
  Modelled from the spec: the constructor of the problem, missing from the sources, called
  as \<open>pb (f)\<close>. \<open>argumentBounds\<close> has length \<open>objective.inputSize\<close>, and the constraint
  sequence starts empty. The spec does not say what the argument bounds are before they are
  set: that interval is the argument \<open>b0\<close>.
\<close>

definition problem_ctor :: "function_t \<Rightarrow> interval_t \<Rightarrow> problem_t" where
  "problem_ctor f b0 =
     \<lparr>pb_function = f, constraints = [],
      argumentBounds = replicate (inputSize f) b0, startingPoint = None\<rparr>"

text \<open>
  Modelled from the spec: the write to an argument bound, missing from the sources, which
  the source spells \<open>pb.argumentBounds ()[i] = interval\<close>.
  \<open>setArgumentBounds(i, interval)\<close> requires \<open>0 \<le> i < inputSize\<close> and overwrites the
  bound at position \<open>i\<close>; a bad variable index is \<open>IndexOutOfRange\<close>.
\<close>

definition setArgumentBounds :: "size_type \<Rightarrow> interval_t \<Rightarrow> problem_t \<Rightarrow> error + problem_t" where
  "setArgumentBounds i iv pb =
     (if i < inputSize (pb_function pb)
      then Inr (pb\<lparr>argumentBounds := (argumentBounds pb)[i := iv]\<rparr>)
      else Inl IndexOutOfRange)"

text \<open>
  Modelled from the spec: the write to the starting point, missing from the sources, which
  the source spells \<open>pb.startingPoint () = vector\<close>. \<open>setStartingPoint(vector)\<close>
  requires the length \<open>inputSize\<close>; another length is \<open>DimensionMismatch\<close>.
\<close>

definition setStartingPoint :: "vector_t \<Rightarrow> problem_t \<Rightarrow> error + problem_t" where
  "setStartingPoint v pb =
     (if length v = inputSize (pb_function pb)
      then Inr (pb\<lparr>startingPoint := Some v\<rparr>)
      else Inl DimensionMismatch)"

text \<open>
  Modelled from the spec: \<open>addConstraint\<close> of the library, missing from the sources.
  \<open>addConstraint(function, bounds, scales)\<close> requires
  \<open>function.inputSize == objective.inputSize\<close> and
  \<open>len(bounds) == len(scales) == function.outputSize\<close>, fails with
  \<open>DimensionMismatch\<close> otherwise and leaves the problem as it was; it appends to the
  constraint sequence and returns the assigned index.
\<close>

definition addConstraint ::
  "function_t \<Rightarrow> interval_t list \<Rightarrow> real list \<Rightarrow> problem_t \<Rightarrow> error + problem_t \<times> nat" where
  "addConstraint f bounds scales pb =
     (if inputSize f = inputSize (pb_function pb)
         \<and> length bounds = outputSize f \<and> length scales = outputSize f
      then Inr (pb\<lparr>constraints :=
                     constraints pb @ [\<lparr>cfunction = f, cbounds = bounds, cscales = scales\<rparr>]\<rparr>,
                length (constraints pb))
      else Inl DimensionMismatch)"

subsection \<open>Assembly of the problem in \<open>main\<close>\<close>

text \<open>
  The loop \<open>for (i = 0; i < pb.function ().inputSize (); ++i)\<close> that sets every argument
  bound to \<open>makeInterval (1., 5.)\<close>.
\<close>

function bounds_loop :: "size_type \<Rightarrow> problem_t \<Rightarrow> error + problem_t" where
  "bounds_loop i pb =
     (if i < inputSize (pb_function pb)
      then (case setArgumentBounds i (makeInterval 1 5) pb of
              Inl e \<Rightarrow> Inl e
            | Inr pb' \<Rightarrow> bounds_loop (Suc i) pb')
      else Inr pb)"
  by pat_completeness auto
termination
  by (relation "measure (\<lambda>(i, pb). inputSize (pb_function pb) - i)")
     (auto simp: setArgumentBounds_def split: if_splits)

text \<open>
  The local vector \<open>start\<close>: created with \<open>pb.function ().inputSize ()\<close> coefficients, which
  the library leaves uninitialised (\<open>uninit\<close> gives their contents), then written at the
  indices 0 to 3.
\<close>

definition main_start :: "problem_t \<Rightarrow> (nat \<Rightarrow> real) \<Rightarrow> error + vector_t" where
  "main_start pb uninit =
     (let start = map uninit [0..<inputSize (pb_function pb)]
      in if 3 < length start
         then Inr (start[0 := 1, 1 := 5, 2 := 5, 3 := 1])
         else Inl AssertionFailure)"

text \<open>
  Lines 113 to 150 of \<open>main\<close>: the problem as it is handed to the solver factory. The local
  vectors \<open>bounds\<close> and \<open>scales\<close> are filled with \<open>push_back\<close>, passed to
  \<open>addConstraint\<close>, cleared and filled again.
\<close>

definition main_assemble :: "interval_t \<Rightarrow> (nat \<Rightarrow> real) \<Rightarrow> error + problem_t" where
  "main_assemble b0 uninit =
     (let pb = problem_ctor F b0 in
      case bounds_loop 0 pb of Inl e \<Rightarrow> Inl e | Inr pb \<Rightarrow>
      case main_start pb uninit of Inl e \<Rightarrow> Inl e | Inr start \<Rightarrow>
      case setStartingPoint start pb of Inl e \<Rightarrow> Inl e | Inr pb \<Rightarrow>
      let bounds = []; scales = [];
          bounds = bounds @ [makeLowerInterval 25];
          scales = scales @ [1]
      in case addConstraint G0 bounds scales pb of Inl e \<Rightarrow> Inl e | Inr (pb, i0) \<Rightarrow>
      let bounds = []; scales = [];
          bounds = bounds @ [makeInterval 40 40];
          scales = scales @ [1]
      in case addConstraint G1 bounds scales pb of Inl e \<Rightarrow> Inl e | Inr (pb, i1) \<Rightarrow>
      Inr pb)"

text \<open>
  The same lines as a relation between program points and the value of \<open>pb\<close> there:
  \<open>Bounds i\<close> is the head of the loop with counter \<open>i\<close>, \<open>Start\<close> the point after the
  loop, \<open>Constraint0\<close> and \<open>Constraint1\<close> the points before the first and the second
  \<open>addConstraint\<close>, \<open>Dispatch\<close> the point before the solver factory is called.
\<close>

datatype point = Bounds size_type | Start | Constraint0 | Constraint1 | Dispatch

inductive main_at :: "interval_t \<Rightarrow> (nat \<Rightarrow> real) \<Rightarrow> point \<Rightarrow> problem_t \<Rightarrow> bool"
  for b0 :: interval_t and uninit :: "nat \<Rightarrow> real" where
  constructed: "main_at b0 uninit (Bounds 0) (problem_ctor F b0)"
| loop_body:
    "\<lbrakk>main_at b0 uninit (Bounds i) pb; i < inputSize (pb_function pb);
      setArgumentBounds i (makeInterval 1 5) pb = Inr pb'\<rbrakk>
     \<Longrightarrow> main_at b0 uninit (Bounds (Suc i)) pb'"
| loop_exit:
    "\<lbrakk>main_at b0 uninit (Bounds i) pb; \<not> i < inputSize (pb_function pb)\<rbrakk>
     \<Longrightarrow> main_at b0 uninit Start pb"
| start_set:
    "\<lbrakk>main_at b0 uninit Start pb; main_start pb uninit = Inr start;
      setStartingPoint start pb = Inr pb'\<rbrakk>
     \<Longrightarrow> main_at b0 uninit Constraint0 pb'"
| g0_added:
    "\<lbrakk>main_at b0 uninit Constraint0 pb;
      addConstraint G0 ([] @ [makeLowerInterval 25]) ([] @ [1]) pb = Inr (pb', i0)\<rbrakk>
     \<Longrightarrow> main_at b0 uninit Constraint1 pb'"
| g1_added:
    "\<lbrakk>main_at b0 uninit Constraint1 pb;
      addConstraint G1 ([] @ [makeInterval 40 40]) ([] @ [1]) pb = Inr (pb', i1)\<rbrakk>
     \<Longrightarrow> main_at b0 uninit Dispatch pb'"

subsection \<open>The outcome of the solver and the switch in \<open>main\<close>\<close>

text \<open>
  The outcome type of the solver, its payloads and its tags are the library's and are not
  among the sources.
\<close>

text \<open>
  Modelled from the spec: the payloads of the outcome, missing from the sources:
  \<open>{x, objectiveValue}\<close> of a solution, the same with \<open>warnings\<close> added, and the
  \<open>message\<close> of an error, which the source reads through \<open>what ()\<close>. The source calls
  their types \<open>Result\<close>, \<open>ResultWithWarnings\<close> and \<open>SolverError\<close>.
\<close>

record Result =
  res_x :: vector_t
  res_value :: real

record ResultWithWarnings = Result +
  res_warnings :: "string list"

record SolverError =
  what :: string

text \<open>
  Modelled from the spec: the outcome type \<open>solver_t::result_t\<close>, missing from the
  sources: a tagged union over \<open>Solved\<close>, \<open>SolvedWithWarnings\<close>, \<open>NoSolution\<close>, which
  has no payload, and \<open>Error\<close>.
\<close>

datatype result_t =
    NoSolution
  | Solved Result
  | SolvedWithWarnings ResultWithWarnings
  | Error SolverError

text \<open>
  Modelled from the spec: the four tags, missing from the sources, which the source calls
  \<open>SOLVER_NO_SOLUTION\<close>, \<open>SOLVER_VALUE\<close>, \<open>SOLVER_VALUE_WARNINGS\<close> and
  \<open>SOLVER_ERROR\<close>. No two tags are equal.
\<close>

definition SOLVER_NO_SOLUTION :: int where "SOLVER_NO_SOLUTION = 0"
definition SOLVER_VALUE :: int where "SOLVER_VALUE = 1"
definition SOLVER_VALUE_WARNINGS :: int where "SOLVER_VALUE_WARNINGS = 2"
definition SOLVER_ERROR :: int where "SOLVER_ERROR = 3"

text \<open>
  Modelled from the spec: \<open>res.which ()\<close>, missing from the sources, the tag of the
  alternative that the outcome holds.
\<close>

fun which :: "result_t \<Rightarrow> int" where
  "which NoSolution = SOLVER_NO_SOLUTION"
| "which (Solved r) = SOLVER_VALUE"
| "which (SolvedWithWarnings r) = SOLVER_VALUE_WARNINGS"
| "which (Error e) = SOLVER_ERROR"

text \<open>
  \<open>boost::get<T> (res)\<close> on a reference: the content when the variant holds a \<open>T\<close>, the
  exception \<open>bad_get\<close> otherwise.
\<close>

fun get_Result :: "result_t \<Rightarrow> error + Result" where
  "get_Result (Solved r) = Inr r"
| "get_Result res = Inl bad_get"

fun get_ResultWithWarnings :: "result_t \<Rightarrow> error + ResultWithWarnings" where
  "get_ResultWithWarnings (SolvedWithWarnings r) = Inr r"
| "get_ResultWithWarnings res = Inl bad_get"

fun get_SolverError :: "result_t \<Rightarrow> error + SolverError" where
  "get_SolverError (Error e) = Inr e"
| "get_SolverError res = Inl bad_get"

text \<open>
  What is sent to the standard output, item by item; how a payload is rendered is the
  library's business.
\<close>

datatype printed =
    Str string
  | Endl
  | Show_Result Result
  | Show_ResultWithWarnings ResultWithWarnings

text \<open>
  Lines 172 to 212 of \<open>main\<close>. A run that returns gives what it printed and the exit code;
  a run that throws gives the exception (what it printed before is not recorded). The labels
  \<open>SOLVER_NO_SOLUTION\<close> and \<open>SOLVER_ERROR\<close> share one block. After the switch comes
  \<open>assert (0); return 42;\<close>: the assertion fails, unless assertions are compiled out
  (\<open>ndebug\<close>), in which case 42 is returned.
\<close>

definition main_switch :: "bool \<Rightarrow> result_t \<Rightarrow> error + printed list \<times> int" where
  "main_switch ndebug res =
     (let w = which res in
      if w = SOLVER_VALUE then
        (case get_Result res of
           Inl e \<Rightarrow> Inl e
         | Inr result \<Rightarrow>
             Inr ([Str ''A solution has been found: '', Endl, Show_Result result, Endl], 0))
      else if w = SOLVER_VALUE_WARNINGS then
        (case get_ResultWithWarnings res of
           Inl e \<Rightarrow> Inl e
         | Inr result \<Rightarrow>
             Inr ([Str ''A solution has been found: '', Endl,
                   Show_ResultWithWarnings result, Endl], 0))
      else if w = SOLVER_NO_SOLUTION \<or> w = SOLVER_ERROR then
        (case get_SolverError res of
           Inl e \<Rightarrow> Inl e
         | Inr err \<Rightarrow>
             Inr ([Str ''A solution should have been found. Failing...'', Endl,
                   Str (what err), Endl], 2))
      else if ndebug then Inr ([], 42)
      else Inl AssertionFailure)"


subsection \<open>Notions used to state the properties\<close>

text \<open>
  The value of the only output component of a function at \<open>x\<close>, computed into a result
  vector of \<open>outputSize\<close> coefficients.
\<close>

definition compute0 :: "function_t \<Rightarrow> vector_t \<Rightarrow> real" where
  "compute0 f x = projr (impl_compute f (replicate (outputSize f) 0) x) ! 0"

text \<open>
  \<open>d\<close> is the partial derivative of \<open>f\<close> at \<open>x\<close> with respect to the variable of index
  \<open>a\<close>: the derivative of \<open>f\<close> along that coordinate, the others being fixed.
\<close>

definition is_partial_derivative ::
  "(vector_t \<Rightarrow> real) \<Rightarrow> nat \<Rightarrow> vector_t \<Rightarrow> real \<Rightarrow> bool" where
  "is_partial_derivative f a x d = ((\<lambda>t. f (x[a := t])) has_real_derivative d) (at (x ! a))"

text \<open>
  \<open>d\<close> is the second partial derivative of \<open>f\<close> at \<open>x\<close> with respect to the variables of
  indices \<open>a\<close> and \<open>b\<close>, for a function of four variables: some \<open>g\<close> is the partial
  derivative of \<open>f\<close> with respect to \<open>a\<close> everywhere, and \<open>d\<close> is the partial derivative
  of \<open>g\<close> with respect to \<open>b\<close> at \<open>x\<close>.
\<close>

definition is_second_partial ::
  "(vector_t \<Rightarrow> real) \<Rightarrow> nat \<Rightarrow> nat \<Rightarrow> vector_t \<Rightarrow> real \<Rightarrow> bool" where
  "is_second_partial f a b x d =
     (\<exists>g. (\<forall>y0 y1 y2 y3. is_partial_derivative f a [y0, y1, y2, y3] (g [y0, y1, y2, y3]))
        \<and> is_partial_derivative g b x d)"

text \<open>The square matrix \<open>H\<close> of order \<open>n\<close> is symmetric.\<close>

definition symmetric :: "nat \<Rightarrow> matrix_t \<Rightarrow> bool" where
  "symmetric n H = (\<forall>a<n. \<forall>b<n. H ! a ! b = H ! b ! a)"

text \<open>
  The invariant of a problem: every constraint function has the input size of the objective,
  and the objective has one output component.
\<close>

definition problem_inv :: "problem_t \<Rightarrow> bool" where
  "problem_inv pb =
     (list_all (\<lambda>c. inputSize (cfunction c) = inputSize (pb_function pb)) (constraints pb)
      \<and> outputSize (pb_function pb) = 1)"

section \<open>Properties of the three functions\<close>

declare bounds_loop.simps [simp del]

lemma vector4: "length (x::'a list) = 4 \<Longrightarrow> \<exists>x0 x1 x2 x3. x = [x0, x1, x2, x3]"
  by (auto simp: length_Suc_conv numeral_eq_Suc)

lemma update4:
  "[x0, x1, x2, x3][0 := t] = [t, x1, x2, x3]"
  "[x0, x1, x2, x3][1 := t] = [x0, t, x2, x3]"
  "[x0, x1, x2, x3][2 := t] = [x0, x1, t, x3]"
  "[x0, x1, x2, x3][3 := t] = [x0, x1, x2, t]"
  by (simp_all add: numeral_eq_Suc)

lemma less4: "(a::nat) < 4 \<longleftrightarrow> a = 0 \<or> a = 1 \<or> a = 2 \<or> a = 3"
  by arith

lemma compute0_4:
  "compute0 F [x0, x1, x2, x3] = x0 * x3 * (x0 + x1 + x2) + x2"
  "compute0 G0 [x0, x1, x2, x3] = x0 * x1 * x2 * x3"
  "compute0 G1 [x0, x1, x2, x3] = x0 * x0 + x1 * x1 + x2 * x2 + x3 * x3"
  by (simp_all add: compute0_def F_impl_compute_def G0_impl_compute_def G1_impl_compute_def)

text \<open>
  C5. For every input vector \<open>x\<close> of length 4 and a result vector of one coefficient, the
  objective's compute returns \<open>x0*x3*(x0+x1+x2) + x2\<close>, the first constraint function's
  compute returns \<open>x0*x1*x2*x3\<close> and the second's returns the sum of the four squares, each
  as a vector of one component; each function declares output size 1.
\<close>

theorem impl_compute_values:
  assumes "length x = 4" and "length result = 1"
  shows "impl_compute F result x = Inr [x ! 0 * x ! 3 * (x ! 0 + x ! 1 + x ! 2) + x ! 2]
       \<and> impl_compute G0 result x = Inr [x ! 0 * x ! 1 * x ! 2 * x ! 3]
       \<and> impl_compute G1 result x = Inr [(x ! 0)\<^sup>2 + (x ! 1)\<^sup>2 + (x ! 2)\<^sup>2 + (x ! 3)\<^sup>2]
       \<and> outputSize F = 1 \<and> outputSize G0 = 1 \<and> outputSize G1 = 1"
proof -
  from assms(2) obtain r where "result = [r]"
    by (cases result) auto
  with assms(1) show ?thesis
    by (simp add: F_impl_compute_def G0_impl_compute_def G1_impl_compute_def power2_eq_square)
qed

theorem impl_compute_values_witness:
  "length [1, 5, 5, 1 :: real] = 4 \<and> length [0 :: real] = 1
   \<and> impl_compute F [0] [1, 5, 5, 1] = Inr [16]
   \<and> impl_compute G0 [0] [1, 5, 5, 1] = Inr [25]
   \<and> impl_compute G1 [0] [1, 5, 5, 1] = Inr [52]"
  using impl_compute_values [of "[1, 5, 5, 1]" "[0]"] by simp

subsection \<open>Gradients\<close>

lemma F_partials:
  "is_partial_derivative (compute0 F) 0 [x0, x1, x2, x3] (x0 * x3 + x3 * (x0 + x1 + x2))"
  "is_partial_derivative (compute0 F) 1 [x0, x1, x2, x3] (x0 * x3)"
  "is_partial_derivative (compute0 F) 2 [x0, x1, x2, x3] (x0 * x3 + 1)"
  "is_partial_derivative (compute0 F) 3 [x0, x1, x2, x3] (x0 * (x0 + x1 + x2))"
  unfolding is_partial_derivative_def update4 compute0_4
  by (auto intro!: derivative_eq_intros simp: algebra_simps)

lemma G0_partials:
  "is_partial_derivative (compute0 G0) 0 [x0, x1, x2, x3] (x1 * x2 * x3)"
  "is_partial_derivative (compute0 G0) 1 [x0, x1, x2, x3] (x0 * x2 * x3)"
  "is_partial_derivative (compute0 G0) 2 [x0, x1, x2, x3] (x0 * x1 * x3)"
  "is_partial_derivative (compute0 G0) 3 [x0, x1, x2, x3] (x0 * x1 * x2)"
  unfolding is_partial_derivative_def update4 compute0_4
  by (auto intro!: derivative_eq_intros simp: algebra_simps)

lemma G1_partials:
  "is_partial_derivative (compute0 G1) 0 [x0, x1, x2, x3] (2 * x0)"
  "is_partial_derivative (compute0 G1) 1 [x0, x1, x2, x3] (2 * x1)"
  "is_partial_derivative (compute0 G1) 2 [x0, x1, x2, x3] (2 * x2)"
  "is_partial_derivative (compute0 G1) 3 [x0, x1, x2, x3] (2 * x3)"
  unfolding is_partial_derivative_def update4 compute0_4
  by (auto intro!: derivative_eq_intros simp: algebra_simps)

lemma gradient_is_partial:
  assumes "a < 4"
  shows "is_partial_derivative (compute0 f) a [x0, x1, x2, x3]
           (projr (impl_gradient f [x0, x1, x2, x3] i) ! a)"
  using assms unfolding less4
  by (cases f)
     (auto simp: F_impl_gradient_def G0_impl_gradient_def G1_impl_gradient_def
        F_partials G0_partials G1_partials simp del: One_nat_def)

text \<open>
  C4. For every input vector \<open>x\<close> of length 4, the gradient returned by each of \<open>F\<close>,
  \<open>G0\<close> and \<open>G1\<close> is the vector of the claim's formulas, and each of its components is the
  exact partial derivative of that function's compute with respect to the variable of the
  same index.
\<close>

theorem impl_gradient_exact:
  assumes "length x = 4"
  shows "impl_gradient F x i =
           Inr [x ! 0 * x ! 3 + x ! 3 * (x ! 0 + x ! 1 + x ! 2),
                x ! 0 * x ! 3,
                x ! 0 * x ! 3 + 1,
                x ! 0 * (x ! 0 + x ! 1 + x ! 2)]
       \<and> impl_gradient G0 x i =
           Inr [x ! 1 * x ! 2 * x ! 3, x ! 0 * x ! 2 * x ! 3,
                x ! 0 * x ! 1 * x ! 3, x ! 0 * x ! 1 * x ! 2]
       \<and> impl_gradient G1 x i = Inr [2 * x ! 0, 2 * x ! 1, 2 * x ! 2, 2 * x ! 3]
       \<and> (\<forall>f a. a < 4 \<longrightarrow>
            is_partial_derivative (compute0 f) a x (projr (impl_gradient f x i) ! a))"
proof -
  from assms obtain x0 x1 x2 x3 where x: "x = [x0, x1, x2, x3]"
    using vector4 by blast
  have "is_partial_derivative (compute0 f) a x (projr (impl_gradient f x i) ! a)"
    if "a < 4" for f a
    using that unfolding x by (rule gradient_is_partial)
  then show ?thesis
    by (simp add: x F_impl_gradient_def G0_impl_gradient_def G1_impl_gradient_def)
qed

theorem impl_gradient_exact_witness:
  "length [1, 5, 5, 1 :: real] = 4
   \<and> impl_gradient F [1, 5, 5, 1] 0 = Inr [12, 1, 2, 11]
   \<and> impl_gradient G0 [1, 5, 5, 1] 0 = Inr [25, 5, 5, 25]
   \<and> impl_gradient G1 [1, 5, 5, 1] 0 = Inr [2, 10, 10, 2]
   \<and> is_partial_derivative (compute0 F) 3 [1, 5, 5, 1] 11"
proof -
  have len: "length [1, 5, 5, 1 :: real] = 4" by simp
  note grad = impl_gradient_exact [OF len, of 0]
  from grad have "is_partial_derivative (compute0 F) 3 [1, 5, 5, 1]
      (projr (impl_gradient F [1, 5, 5, 1] 0) ! 3)"
    by (metis less4)
  with grad show ?thesis by (simp add: F_impl_gradient_def)
qed


subsection \<open>Hessians\<close>

text \<open>
  The Hessians of \<open>G0\<close> and \<open>G1\<close> are symmetric at every point. The Hessian of \<open>F\<close>
  holds \<open>x[1]\<close> at row 2, column 3 and \<open>x[0]\<close> at row 3, column 2: it is symmetric
  exactly when these two coordinates of the point are equal.
\<close>

lemma G0_hessian_symmetric:
  assumes "length x = 4"
  shows "\<exists>H. impl_hessian G0 x i = Inr H \<and> symmetric 4 H"
  using assms by (auto simp: G0_impl_hessian_def symmetric_def less4)

lemma G1_hessian_symmetric: "\<exists>H. impl_hessian G1 x i = Inr H \<and> symmetric 4 H"
  by (auto simp: G1_impl_hessian_def symmetric_def less4)

lemma F_hessian_symmetric_iff:
  assumes "length x = 4"
  shows "\<exists>H. impl_hessian F x i = Inr H \<and> (symmetric 4 H \<longleftrightarrow> x ! 0 = x ! 1)"
  using assms by (auto simp: F_impl_hessian_def symmetric_def less4)

text \<open>
  C1. At the point \<open>(1, 5, 5, 1)\<close> and the output index 0, the Hessian returned by \<open>F\<close>
  has 5 at row 2, column 3 and 1 at row 3, column 2: it is not symmetric there.
\<close>

theorem F_hessian_asymmetric:
  "\<exists>H. impl_hessian F [1, 5, 5, 1] 0 = Inr H \<and> H ! 2 ! 3 = 5 \<and> H ! 3 ! 2 = 1"
  by (simp add: F_impl_hessian_def)

lemma second_partialI:
  assumes "\<And>y0 y1 y2 y3. is_partial_derivative f a [y0, y1, y2, y3] (g [y0, y1, y2, y3])"
    and "is_partial_derivative g b x d"
  shows "is_second_partial f a b x d"
  unfolding is_second_partial_def using assms by blast

lemma partial_unique:
  "is_partial_derivative f a x d \<Longrightarrow> is_partial_derivative f a x e \<Longrightarrow> d = e"
  unfolding is_partial_derivative_def by (rule DERIV_unique)

text \<open>
  The second partial derivative of the compute of \<open>F\<close> with respect to the variables 2 and
  3 is \<open>x0\<close>, and nothing else.
\<close>

lemma F_second_partial_2_3:
  "is_second_partial (compute0 F) 2 3 [x0, x1, x2, x3] d \<longleftrightarrow> d = x0"
proof
  assume "is_second_partial (compute0 F) 2 3 [x0, x1, x2, x3] d"
  then obtain g
    where g: "\<And>y0 y1 y2 y3.
        is_partial_derivative (compute0 F) 2 [y0, y1, y2, y3] (g [y0, y1, y2, y3])"
      and d: "is_partial_derivative g 3 [x0, x1, x2, x3] d"
    unfolding is_second_partial_def by blast
  have "g [y0, y1, y2, y3] = y0 * y3 + 1" for y0 y1 y2 y3
    using g F_partials(3) by (rule partial_unique)
  with d have "((\<lambda>t. x0 * t + 1) has_real_derivative d) (at x3)"
    by (simp add: is_partial_derivative_def update4)
  moreover have "((\<lambda>t. x0 * t + 1) has_real_derivative x0) (at x3)"
    by (auto intro!: derivative_eq_intros)
  ultimately show "d = x0" by (rule DERIV_unique)
next
  assume "d = x0"
  have "is_partial_derivative (\<lambda>y. y ! 0 * y ! 3 + 1) 3 [x0, x1, x2, x3] x0"
    unfolding is_partial_derivative_def update4
    by (auto intro!: derivative_eq_intros)
  with \<open>d = x0\<close> show "is_second_partial (compute0 F) 2 3 [x0, x1, x2, x3] d"
    by (intro second_partialI [where g = "\<lambda>y. y ! 0 * y ! 3 + 1"]) (simp_all add: F_partials)
qed

text \<open>
  C2. At the point \<open>(1, 5, 5, 1)\<close> the Hessian returned by \<open>F\<close> has 5 at row 2, column 3,
  whereas the second partial derivative of the compute of \<open>F\<close> with respect to the
  variables 2 and 3 is 1 there, and is not 5.
\<close>

theorem F_hessian_entry_2_3:
  "(\<exists>H. impl_hessian F [1, 5, 5, 1] 0 = Inr H \<and> H ! 2 ! 3 = 5)
   \<and> is_second_partial (compute0 F) 2 3 [1, 5, 5, 1] 1
   \<and> \<not> is_second_partial (compute0 F) 2 3 [1, 5, 5, 1] 5"
  by (simp add: F_impl_hessian_def F_second_partial_2_3)

text \<open>Every other entry of the Hessian of \<open>F\<close> is the second partial derivative.\<close>

lemma F_hessian_other_entries:
  assumes "length x = 4" "a < 4" "b < 4" "(a, b) \<noteq> (2, 3)"
  shows "\<exists>H. impl_hessian F x i = Inr H \<and> is_second_partial (compute0 F) a b x (H ! a ! b)"
proof -
  from assms(1) obtain x0 x1 x2 x3 where x: "x = [x0, x1, x2, x3]"
    using vector4 by blast
  let ?g = "\<lambda>a y. projr (impl_gradient F y 0) ! a"
  have 1: "is_partial_derivative (compute0 F) a [y0, y1, y2, y3] (?g a [y0, y1, y2, y3])"
    for y0 y1 y2 y3
    using assms(2) by (rule gradient_is_partial)
  have 2: "is_partial_derivative (?g a) b x (projr (impl_hessian F x i) ! a ! b)"
    using assms(2-4) unfolding x less4 is_partial_derivative_def
    by (elim disjE; simp add: update4 F_impl_gradient_def F_impl_hessian_def del: One_nat_def)
       (auto intro!: derivative_eq_intros simp: algebra_simps)
  from 1 2 have "is_second_partial (compute0 F) a b x (projr (impl_hessian F x i) ! a ! b)"
    by (rule second_partialI)
  then show ?thesis by (simp add: x F_impl_hessian_def)
qed

section \<open>Properties of the assembled problem\<close>

lemma bounds_loop_ctor:
  "bounds_loop 0 (problem_ctor F b0) =
     Inr \<lparr>pb_function = F, constraints = [],
          argumentBounds =
            [makeInterval 1 5, makeInterval 1 5, makeInterval 1 5, makeInterval 1 5],
          startingPoint = None\<rparr>"
  by (simp add: bounds_loop.simps [of 0] bounds_loop.simps [of "Suc 0"]
      bounds_loop.simps [of "Suc (Suc 0)"] bounds_loop.simps [of "Suc (Suc (Suc 0))"]
      bounds_loop.simps [of "Suc (Suc (Suc (Suc 0)))"]
      problem_ctor_def setArgumentBounds_def numeral_eq_Suc)

lemma main_start_value: "main_start pb uninit = Inr [1, 5, 5, 1]"
  by (cases "pb_function pb") (simp_all add: main_start_def numeral_eq_Suc upt_rec)

lemma main_assemble_value:
  "main_assemble b0 uninit =
     Inr \<lparr>pb_function = F,
          constraints =
            [\<lparr>cfunction = G0, cbounds = [makeLowerInterval 25], cscales = [1]\<rparr>,
             \<lparr>cfunction = G1, cbounds = [makeInterval 40 40], cscales = [1]\<rparr>],
          argumentBounds =
            [makeInterval 1 5, makeInterval 1 5, makeInterval 1 5, makeInterval 1 5],
          startingPoint = Some [1, 5, 5, 1]\<rparr>"
  by (simp add: main_assemble_def bounds_loop_ctor main_start_value setStartingPoint_def
      addConstraint_def)

text \<open>
  C6. The assembly in \<open>main\<close> succeeds, and the problem it hands over has as many argument
  bounds as the objective has inputs, namely 4, each of them the interval \<open>[1, 5]\<close>, and the
  starting point \<open>(1, 5, 5, 1)\<close>, of length 4.
\<close>

theorem main_bounds_and_start:
  "\<exists>pb. main_assemble b0 uninit = Inr pb
     \<and> inputSize (pb_function pb) = 4
     \<and> length (argumentBounds pb) = inputSize (pb_function pb)
     \<and> argumentBounds pb = replicate 4 \<lparr>lower = Finite 1, upper = Finite 5\<rparr>
     \<and> startingPoint pb = Some [1, 5, 5, 1]
     \<and> length [1, 5, 5, 1 :: real] = 4"
  by (simp add: main_assemble_value makeInterval_def numeral_eq_Suc)

text \<open>
  C7. The problem that \<open>main\<close> hands over has exactly two constraints, in the order of
  insertion: first \<open>G0\<close> with the single bound \<open>[25, +infinity)\<close> and the scale 1, then
  \<open>G1\<close> with the single bound \<open>[40, 40]\<close> and the scale 1; for each, the bounds and the
  scales are as many as the outputs of the function, namely 1.
\<close>

theorem main_constraints:
  "\<exists>pb c0 c1. main_assemble b0 uninit = Inr pb
     \<and> constraints pb = [c0, c1]
     \<and> cfunction c0 = G0
     \<and> cbounds c0 = [\<lparr>lower = Finite 25, upper = PosInfinity\<rparr>] \<and> cscales c0 = [1]
     \<and> cfunction c1 = G1
     \<and> cbounds c1 = [\<lparr>lower = Finite 40, upper = Finite 40\<rparr>] \<and> cscales c1 = [1]
     \<and> length (cbounds c0) = outputSize (cfunction c0)
     \<and> length (cscales c0) = outputSize (cfunction c0)
     \<and> length (cbounds c1) = outputSize (cfunction c1)
     \<and> length (cscales c1) = outputSize (cfunction c1)
     \<and> outputSize G0 = 1 \<and> outputSize G1 = 1"
  by (simp add: main_assemble_value makeInterval_def makeLowerInterval_def)

subsection \<open>The program points of the assembly\<close>

lemma bounds_loop_main_at:
  "main_at b0 uninit (Bounds i) pb \<Longrightarrow> bounds_loop i pb = Inr pb'
   \<Longrightarrow> main_at b0 uninit Start pb'"
proof (induction i pb rule: bounds_loop.induct)
  case (1 i pb)
  show ?case
  proof (cases "i < inputSize (pb_function pb)")
    case True
    with "1.prems"(2) obtain pb1
      where s: "setArgumentBounds i (makeInterval 1 5) pb = Inr pb1"
        and r: "bounds_loop (Suc i) pb1 = Inr pb'"
      by (subst (asm) bounds_loop.simps) (auto split: sum.splits)
    from "1.prems"(1) True s have "main_at b0 uninit (Bounds (Suc i)) pb1"
      by (rule main_at.loop_body)
    with "1.IH" True s r show ?thesis by blast
  next
    case False
    with "1.prems"(2) have "pb' = pb"
      by (subst (asm) bounds_loop.simps) simp
    with "1.prems"(1) False show ?thesis
      by (auto intro: main_at.loop_exit)
  qed
qed

text \<open>The problem that the assembly returns is the one at the point \<open>Dispatch\<close>.\<close>

lemma main_assemble_main_at:
  assumes "main_assemble b0 uninit = Inr pb"
  shows "main_at b0 uninit Dispatch pb"
proof -
  from assms obtain pb1 start pb2 pb3 i0 i1 where
    1: "bounds_loop 0 (problem_ctor F b0) = Inr pb1"
    and 2: "main_start pb1 uninit = Inr start"
    and 3: "setStartingPoint start pb1 = Inr pb2"
    and 4: "addConstraint G0 ([] @ [makeLowerInterval 25]) ([] @ [1]) pb2 = Inr (pb3, i0)"
    and 5: "addConstraint G1 ([] @ [makeInterval 40 40]) ([] @ [1]) pb3 = Inr (pb, i1)"
    unfolding main_assemble_def Let_def by (auto split: sum.splits prod.splits)
  have "main_at b0 uninit Start pb1"
    using main_at.constructed 1 by (rule bounds_loop_main_at)
  then have "main_at b0 uninit Constraint0 pb2"
    using 2 3 by (rule main_at.start_set)
  then have "main_at b0 uninit Constraint1 pb3"
    using 4 by (rule main_at.g0_added)
  then show ?thesis
    using 5 by (rule main_at.g1_added)
qed

lemma replicate_update:
  "i < n \<Longrightarrow> (replicate i a @ replicate (n - i) b)[i := a]
     = replicate (Suc i) a @ replicate (n - Suc i) b"
proof -
  assume "i < n"
  then obtain m where m: "n - i = Suc m"
    by (cases "n - i") auto
  then have "n - Suc i = m" by simp
  with m show ?thesis
    by (simp add: list_update_append replicate_append_same)
qed

text \<open>
  Conversely, the value of \<open>pb\<close> at each program point is determined; at \<open>Dispatch\<close> it
  is the problem that the assembly returns.
\<close>

lemma main_at_state:
  "main_at b0 uninit p pb \<Longrightarrow>
     (case p of
        Bounds i \<Rightarrow> i \<le> 4 \<and>
          pb = \<lparr>pb_function = F, constraints = [],
                argumentBounds = replicate i (makeInterval 1 5) @ replicate (4 - i) b0,
                startingPoint = None\<rparr>
      | Start \<Rightarrow> bounds_loop 0 (problem_ctor F b0) = Inr pb
      | Constraint0 \<Rightarrow>
          (\<exists>pb1. bounds_loop 0 (problem_ctor F b0) = Inr pb1
             \<and> setStartingPoint [1, 5, 5, 1] pb1 = Inr pb)
      | Constraint1 \<Rightarrow>
          (\<exists>pb1 pb2. bounds_loop 0 (problem_ctor F b0) = Inr pb1
             \<and> setStartingPoint [1, 5, 5, 1] pb1 = Inr pb2
             \<and> addConstraint G0 [makeLowerInterval 25] [1] pb2 = Inr (pb, 0))
      | Dispatch \<Rightarrow> main_assemble b0 uninit = Inr pb)"
proof (induction rule: main_at.induct)
  case constructed
  show ?case by (simp add: problem_ctor_def)
next
  case (loop_body i pb pb')
  then show ?case
    by (auto simp: setArgumentBounds_def replicate_update simp del: replicate_Suc)
next
  case (loop_exit i pb)
  then show ?case by (auto simp: bounds_loop_ctor numeral_eq_Suc)
next
  case (start_set pb start pb')
  then show ?case by (simp add: main_start_value)
next
  case (g0_added pb pb' i0)
  then show ?case by (auto simp: bounds_loop_ctor setStartingPoint_def addConstraint_def)
next
  case (g1_added pb pb' i1)
  then show ?case
    by (auto simp: main_assemble_value bounds_loop_ctor setStartingPoint_def addConstraint_def)
qed

lemma main_at_Dispatch_iff:
  "main_at b0 uninit Dispatch pb \<longleftrightarrow> main_assemble b0 uninit = Inr pb"
  using main_at_state [of b0 uninit Dispatch pb] main_assemble_main_at by auto

lemma main_at_inv: "main_at b0 uninit p pb \<Longrightarrow> pb_function pb = F \<and> problem_inv pb"
proof (induction rule: main_at.induct)
  case constructed
  show ?case by (simp add: problem_inv_def problem_ctor_def)
next
  case (loop_body i pb pb')
  then show ?case by (auto simp: problem_inv_def setArgumentBounds_def split: if_splits)
next
  case (loop_exit i pb)
  then show ?case by simp
next
  case (start_set pb start pb')
  then show ?case by (auto simp: problem_inv_def setStartingPoint_def split: if_splits)
next
  case (g0_added pb pb' i0)
  then show ?case by (auto simp: problem_inv_def addConstraint_def split: if_splits)
next
  case (g1_added pb pb' i1)
  then show ?case by (auto simp: problem_inv_def addConstraint_def split: if_splits)
qed

text \<open>
  C8. \<open>F\<close>, \<open>G0\<close> and \<open>G1\<close> declare the input size 4 and \<open>F\<close> the output size 1; at
  every program point of the assembly, from the construction of the problem to its dispatch,
  the objective of the problem is \<open>F\<close> and the invariant holds: every constraint function has
  the input size of the objective, and the objective has one output.
\<close>

theorem main_problem_invariant:
  "inputSize F = 4 \<and> inputSize G0 = 4 \<and> inputSize G1 = 4 \<and> outputSize F = 1
   \<and> (\<forall>p pb. main_at b0 uninit p pb \<longrightarrow> pb_function pb = F \<and> problem_inv pb)"
  using main_at_inv by simp

theorem main_problem_invariant_witness:
  "main_at (makeInterval 0 0) (\<lambda>k. 0) Dispatch
     \<lparr>pb_function = F,
      constraints =
        [\<lparr>cfunction = G0, cbounds = [makeLowerInterval 25], cscales = [1]\<rparr>,
         \<lparr>cfunction = G1, cbounds = [makeInterval 40 40], cscales = [1]\<rparr>],
      argumentBounds = [makeInterval 1 5, makeInterval 1 5, makeInterval 1 5, makeInterval 1 5],
      startingPoint = Some [1, 5, 5, 1]\<rparr>
   \<and> problem_inv
     \<lparr>pb_function = F,
      constraints =
        [\<lparr>cfunction = G0, cbounds = [makeLowerInterval 25], cscales = [1]\<rparr>,
         \<lparr>cfunction = G1, cbounds = [makeInterval 40 40], cscales = [1]\<rparr>],
      argumentBounds = [makeInterval 1 5, makeInterval 1 5, makeInterval 1 5, makeInterval 1 5],
      startingPoint = Some [1, 5, 5, 1]\<rparr>"
  using main_problem_invariant [of "makeInterval 0 0" "\<lambda>k. 0"]
    main_assemble_main_at [OF main_assemble_value, of "makeInterval 0 0" "\<lambda>k. 0"]
  by blast

subsection \<open>The starting point against the constraints\<close>

text \<open>
  C9. The vector \<open>start\<close> of \<open>main\<close> is \<open>(1, 5, 5, 1)\<close>. There \<open>G1\<close> evaluates to 52,
  which is outside the interval \<open>[40, 40]\<close> that \<open>main\<close> gives it, and \<open>G0\<close> evaluates to
  25, the lower endpoint of the interval \<open>[25, +infinity)\<close> that \<open>main\<close> gives it, and so
  inside that interval.
\<close>

theorem starting_point_infeasible:
  assumes "length result = 1"
  shows "\<exists>start. main_start pb uninit = Inr start \<and> start = [1, 5, 5, 1]
       \<and> impl_compute G1 result start = Inr [52]
       \<and> \<not> in_interval 52 (makeInterval 40 40)
       \<and> impl_compute G0 result start = Inr [25]
       \<and> lower (makeLowerInterval 25) = Finite 25
       \<and> upper (makeLowerInterval 25) = PosInfinity
       \<and> in_interval 25 (makeLowerInterval 25)"
proof -
  from assms obtain r where "result = [r]"
    by (cases result) auto
  then show ?thesis
    by (simp add: main_start_value G0_impl_compute_def G1_impl_compute_def in_interval_def
        makeInterval_def makeLowerInterval_def)
qed

theorem starting_point_infeasible_witness:
  "length [0 :: real] = 1
   \<and> main_start (problem_ctor F (makeInterval 0 0)) (\<lambda>k. 0) = Inr [1, 5, 5, 1]
   \<and> impl_compute G1 [0] [1, 5, 5, 1] = Inr [52]
   \<and> impl_compute G0 [0] [1, 5, 5, 1] = Inr [25]"
  using starting_point_infeasible [of "[0]" "problem_ctor F (makeInterval 0 0)" "\<lambda>k. 0"]
  by auto

section \<open>Properties of the switch\<close>

lemma main_switch_Solved:
  "main_switch ndebug (Solved r) =
     Inr ([Str ''A solution has been found: '', Endl, Show_Result r, Endl], 0)"
  by (simp add: main_switch_def)

lemma main_switch_SolvedWithWarnings:
  "main_switch ndebug (SolvedWithWarnings r) =
     Inr ([Str ''A solution has been found: '', Endl, Show_ResultWithWarnings r, Endl], 0)"
  by (simp add: main_switch_def SOLVER_VALUE_def SOLVER_VALUE_WARNINGS_def)

lemma main_switch_Error:
  "main_switch ndebug (Error e) =
     Inr ([Str ''A solution should have been found. Failing...'', Endl,
           Str (what e), Endl], 2)"
  by (simp add: main_switch_def SOLVER_VALUE_def SOLVER_VALUE_WARNINGS_def SOLVER_ERROR_def)

lemma main_switch_NoSolution_value: "main_switch ndebug NoSolution = Inl bad_get"
  by (simp add: main_switch_def SOLVER_VALUE_def SOLVER_VALUE_WARNINGS_def
      SOLVER_NO_SOLUTION_def)

text \<open>
  Whatever the outcome of the solver, control does not reach the code after the switch.
\<close>

lemma trailing_code_unreachable:
  "main_switch ndebug res \<noteq> Inl AssertionFailure \<and> main_switch ndebug res \<noteq> Inr (out, 42)"
  by (cases res)
     (simp_all add: main_switch_Solved main_switch_SolvedWithWarnings main_switch_Error
        main_switch_NoSolution_value)

text \<open>
  C3. When the outcome holds \<open>NoSolution\<close>, its tag is \<open>SOLVER_NO_SOLUTION\<close>, the block
  shared with \<open>SOLVER_ERROR\<close> asks the variant for a \<open>SolverError\<close>, which it does not
  hold, and \<open>main\<close> ends with the exception \<open>bad_get\<close> instead of returning 2.
\<close>

theorem main_switch_NoSolution_throws:
  "which NoSolution = SOLVER_NO_SOLUTION
   \<and> get_SolverError NoSolution = Inl bad_get
   \<and> main_switch ndebug NoSolution = Inl bad_get"
  by (simp add: main_switch_NoSolution_value)

text \<open>
  C10. When the outcome holds \<open>NoSolution\<close>, \<open>main\<close> does not return from inside the
  switch, whatever the exit code and the output.
\<close>

theorem main_switch_NoSolution_no_return:
  "\<forall>ndebug out code. main_switch ndebug NoSolution \<noteq> Inr (out, code)"
  by (simp add: main_switch_NoSolution_value)

end
